theory Spec2Isabelle
  imports Main "HOL-Library.Sublist"
begin

section \<open>Python strings\<close>

text \<open>
  A Python \<open>str\<close> is a sequence of Unicode code points. The two pages receive arbitrary
  text from a browser text box and print labels that contain symbols beyond ASCII, so a
  string is modelled as the list of its code points. \<open>str\<close> embeds an ASCII literal.
\<close>

type_synonym pystr = "nat list"

definition str :: "string \<Rightarrow> pystr" where
  "str s = map of_char s"

text \<open>
  \<open>str.strip()\<close> without arguments removes leading and trailing white space, which for
  Python is the code points below (the ASCII controls 9 to 13 and 28 to 31, the space,
  and the Unicode spaces and line separators).
\<close>

definition isspace :: "nat \<Rightarrow> bool" where
  "isspace c \<longleftrightarrow>
     (9 \<le> c \<and> c \<le> 13) \<or> (28 \<le> c \<and> c \<le> 32) \<or> c = 133 \<or> c = 160 \<or> c = 5760 \<or>
     (8192 \<le> c \<and> c \<le> 8202) \<or> c = 8232 \<or> c = 8233 \<or> c = 8239 \<or> c = 8287 \<or>
     c = 12288"

definition strip :: "pystr \<Rightarrow> pystr" where
  "strip s = rev (dropWhile isspace (rev (dropWhile isspace s)))"

text \<open>Truthiness of a string, and of the result of \<open>os.getenv\<close> (\<open>None\<close> or a string).\<close>

definition truthy :: "pystr \<Rightarrow> bool" where
  "truthy s \<longleftrightarrow> s \<noteq> []"

fun truthy_opt :: "pystr option \<Rightarrow> bool" where
  "truthy_opt None = False"
| "truthy_opt (Some s) = truthy s"

section \<open>The prompt formatter\<close>

text \<open>
  \<open>PromptTemplate.format(text=...)\<close> hands its template and keyword arguments to Python's
  \<open>string.Formatter\<close>. The formatter reads the template from left to right: \<open>{{\<close> and
  \<open>}}\<close> stand for one brace, \<open>{name}\<close> is a replacement field, a brace on its own is a
  \<open>ValueError\<close>. The template is read lazily, so a malformed tail is reported only when
  the fields before it have been filled: the parse ends in \<open>Malformed\<close> at that place.
  Conversions, format specifications, attribute and index lookups inside a field are not
  used by either template; a field that contains one is reported as \<open>Unsupported\<close>.
\<close>

datatype fmt_error =
    SingleOpen
  | SingleClose
  | ExpectedClose
  | Unsupported pystr
  | KeyError pystr

datatype segment = Literal pystr | Replacement pystr | Malformed fmt_error

fun lit_cons :: "nat \<Rightarrow> segment list \<Rightarrow> segment list" where
  "lit_cons c (Literal s # segs) = Literal (c # s) # segs"
| "lit_cons c segs = Literal [c] # segs"

definition plain_name :: "pystr \<Rightarrow> bool" where
  "plain_name n \<longleftrightarrow> (\<forall>c \<in> set n. c \<notin> set (str ''!:.[{''))"

definition field :: "pystr \<Rightarrow> segment" where
  "field n = (if plain_name n then Replacement n else Malformed (Unsupported n))"

fun parse :: "pystr \<Rightarrow> segment list"
  and parse_field :: "pystr \<Rightarrow> pystr \<Rightarrow> segment list" where
  "parse [] = []"
| "parse (c # cs) =
     (if c = 123 then
        (case cs of
           [] \<Rightarrow> [Malformed SingleOpen]
         | d # ds \<Rightarrow> if d = 123 then lit_cons 123 (parse ds) else parse_field [] cs)
      else if c = 125 then
        (case cs of
           [] \<Rightarrow> [Malformed SingleClose]
         | d # ds \<Rightarrow> if d = 125 then lit_cons 125 (parse ds) else [Malformed SingleClose])
      else lit_cons c (parse cs))"
| "parse_field acc [] = [Malformed ExpectedClose]"
| "parse_field acc (c # cs) =
     (if c = 125 then field (rev acc) # parse cs else parse_field (c # acc) cs)"

fun vformat :: "segment list \<Rightarrow> (pystr \<rightharpoonup> pystr) \<Rightarrow> fmt_error + pystr" where
  "vformat [] kwargs = Inr []"
| "vformat (Literal s # segs) kwargs = map_sum id ((@) s) (vformat segs kwargs)"
| "vformat (Replacement n # segs) kwargs =
     (case kwargs n of
        None \<Rightarrow> Inl (KeyError n)
      | Some v \<Rightarrow> map_sum id ((@) v) (vformat segs kwargs))"
| "vformat (Malformed e # segs) kwargs = Inl e"

text \<open>The text of the exception, as \<open>str(e)\<close> prints it.\<close>

fun fmt_error_text :: "fmt_error \<Rightarrow> pystr" where
  "fmt_error_text SingleOpen = str ''Single '{' encountered in format string''"
| "fmt_error_text SingleClose = str ''Single '}' encountered in format string''"
| "fmt_error_text ExpectedClose = str ''expected '}' before end of string''"
| "fmt_error_text (Unsupported n) = str ''unsupported replacement field''"
| "fmt_error_text (KeyError n) = [39] @ n @ [39]"

record prompt_template =
  input_variables :: "pystr list"
  template_of :: pystr

definition format :: "prompt_template \<Rightarrow> (pystr \<rightharpoonup> pystr) \<Rightarrow> fmt_error + pystr" where
  "format p kwargs = vformat (parse (template_of p)) kwargs"

subsection \<open>The two templates\<close>

text \<open>
  Each template is written as the text before its substitution point \<open>{text}\<close> and the
  text after it, line by line as in the source.
\<close>

definition template_head :: pystr where
  "template_head = concat
     [str ''You are a medical expert and good at English. Extract all the medical entities from the given tweet and assign the appropriate medical entity labels.\<newline>'',
      str ''\<newline>'',
      str ''Input text: '']"

definition template_tail :: pystr where
  "template_tail = concat
     [str ''\<newline>'',
      str ''\<newline>'',
      str ''Please format your response as a markdown table with the following columns:\<newline>'',
      str ''| Entity | Label | Context |\<newline>'',
      str ''\<newline>'',
      str ''Only include medical terms, conditions, symptoms, medications, or healthcare-related entities.\<newline>'']"

definition PROMPT_TEMPLATE_head :: pystr where
  "PROMPT_TEMPLATE_head = concat
     [str ''You are an expert in entity extraction and natural language processing. \<newline>'',
      str ''Extract named entities from the given text, focusing on people, organizations, locations, and associated geographic information.\<newline>'',
      str ''\<newline>'',
      str ''Input text: '']"

definition PROMPT_TEMPLATE_tail :: pystr where
  "PROMPT_TEMPLATE_tail = concat
     [str ''\<newline>'',
      str ''\<newline>'',
      str ''Provide a structured analysis in the following markdown table format:\<newline>'',
      str ''| Name | Entity_Type | City | Country | Country_Code |\<newline>'',
      str ''\<newline>'',
      str ''Guidelines:\<newline>'',
      str ''- Name: The extracted entity name\<newline>'',
      str ''- Entity_Type: One of [PERSON, ORGANIZATION, LOCATION]\<newline>'',
      str ''- City: Associated city (if applicable)\<newline>'',
      str ''- Country: Full country name (if applicable)\<newline>'',
      str ''- Country_Code: ISO 2-letter country code (if applicable)\<newline>'',
      str ''\<newline>'',
      str ''Example:\<newline>'',
      str ''For text: \"Tim Cook from Apple in Cupertino, USA announced...\"\<newline>'',
      str ''| Tim Cook | PERSON | Cupertino | United States | US |\<newline>'',
      str ''| Apple | ORGANIZATION | Cupertino | United States | US |\<newline>'',
      str ''\<newline>'',
      str ''Only include relevant named entities. Leave fields blank with '-' if not applicable.\<newline>'',
      str ''Ensure all country codes are valid ISO 2-letter codes.'']"


text \<open>\<open>template\<close> and \<open>prompt\<close> of app.py.\<close>

definition template :: pystr where
  "template = template_head @ str ''{text}'' @ template_tail"

definition prompt :: prompt_template where
  "prompt = \<lparr>input_variables = [str ''text''], template_of = template\<rparr>"

text \<open>\<open>PROMPT_TEMPLATE\<close> of app2.py and the \<open>prompt\<close> built from it in \<open>process_text\<close>.\<close>

definition PROMPT_TEMPLATE :: pystr where
  "PROMPT_TEMPLATE = PROMPT_TEMPLATE_head @ str ''{text}'' @ PROMPT_TEMPLATE_tail"

definition prompt2 :: prompt_template where
  "prompt2 = \<lparr>input_variables = [str ''text''], template_of = PROMPT_TEMPLATE\<rparr>"

text \<open>\<open>prompt.format(text=input_text)\<close>.\<close>

definition formatted_prompt :: "prompt_template \<Rightarrow> pystr \<Rightarrow> fmt_error + pystr" where
  "formatted_prompt p input_text = format p [str ''text'' \<mapsto> input_text]"

text \<open>
  The number of positions of a string at which a given text starts (occurrences may
  overlap); the text is a contiguous substring exactly once when this number is 1.
\<close>

fun occurrences :: "pystr \<Rightarrow> pystr \<Rightarrow> nat" where
  "occurrences t [] = (if t = [] then 1 else 0)"
| "occurrences t (c # cs) = (if prefix t (c # cs) then 1 else 0) + occurrences t cs"

section \<open>The model client and the page\<close>

text \<open>
  Streamlit runs the whole script from top to bottom once for every interaction of the
  user with the page; a run is a function of what the process sees from outside during
  that run (the environment, the outcome of constructing the client, the answer of the
  model endpoint) and of what the browser sends (the content of the text box and the
  button that was clicked, if any). A run leaves a list of elements on the page and of
  calls to the outside, in the order of the script, and ends normally, by \<open>st.stop()\<close>,
  by a rerun request or by an exception that nothing caught.
\<close>

text \<open>The keyword arguments of \<open>ChatGroq(...)\<close>.\<close>

record chat_groq =
  api_key :: "pystr option"
  model :: pystr
  temperature :: int
  max_tokens :: int
  timeout :: int
  max_retries :: int

datatype message = HumanMessage pystr

text \<open>
  What \<open>llm.invoke\<close> returns: an object for which \<open>hasattr(response, 'content')\<close> holds,
  with the value of the attribute, or an object without the attribute, with its
  \<open>str(response)\<close>. The pages read nothing else of a response.
\<close>

datatype response = WithContent pystr | WithoutContent pystr

text \<open>An exception is represented by its text \<open>str(e)\<close>, the only part the pages use.\<close>

type_synonym exn = pystr

record world =
  environ :: "pystr \<rightharpoonup> pystr"
  new_ChatGroq :: "chat_groq \<Rightarrow> exn + unit"
  invoke :: "chat_groq \<Rightarrow> message list \<Rightarrow> exn + response"
  elapsed :: pystr

text \<open>
  \<open>elapsed\<close> is the text of \<open>f"{processing_time:.2f}"\<close> in app2.py. A button returns
  \<open>True\<close> only in the run that its click started, so at most one button is clicked in a
  run.
\<close>

datatype click = NoClick | ClickAnalyze | ClickClear

record browser =
  input_text :: pystr
  clicked :: click

datatype ui =
    Load_dotenv
  | Getenv pystr
  | Set_page_config pystr
  | Title pystr
  | Write pystr
  | Markdown pystr
  | Subheader pystr
  | Error pystr
  | Warning pystr
  | Info pystr
  | Text_area pystr
  | Columns
  | Button pystr
  | Spinner pystr
  | New_ChatGroq chat_groq
  | Invoke chat_groq "message list"
  | Download_button pystr pystr pystr pystr

text \<open>
  \<open>Download_button label data file_name mime\<close>. \<open>Invoke\<close> is the request to the model
  endpoint, the only network call of a page.
\<close>

datatype outcome = Finished | Stopped | Rerun | Raised exn

fun is_Invoke :: "ui \<Rightarrow> bool" where
  "is_Invoke (Invoke llm messages) = True"
| "is_Invoke e = False"



fun is_input_widget :: "ui \<Rightarrow> bool" where
  "is_input_widget (Text_area l) = True"
| "is_input_widget (Button l) = True"
| "is_input_widget e = False"

definition GROQ_API_KEY :: pystr where
  "GROQ_API_KEY = str ''GROQ_API_KEY''"

subsection \<open>app.py\<close>

definition ChatGroq_app :: "pystr option \<Rightarrow> chat_groq" where
  "ChatGroq_app groq_api_key =
     \<lparr>api_key = groq_api_key, model = str ''mixtral-8x7b-32768'', temperature = 0,
      max_tokens = 500, timeout = 10, max_retries = 2\<rparr>"

text \<open>The \<open>except Exception as e\<close> branch of the Analyze handler.\<close>

definition app_except :: "exn \<Rightarrow> ui list" where
  "app_except e =
     [Error (str ''Error processing text: '' @ e),
      Info (str ''Please try again or check your API configuration.'')]"

text \<open>The \<open>try\<close> block of the Analyze handler, inside the spinner.\<close>

definition app_try :: "world \<Rightarrow> chat_groq \<Rightarrow> pystr \<Rightarrow> ui list" where
  "app_try w llm text =
     (case formatted_prompt prompt text of
        Inl e \<Rightarrow> app_except (fmt_error_text e)
      | Inr p \<Rightarrow>
          Invoke llm [HumanMessage p] #
          (case invoke w llm [HumanMessage p] of
             Inl e \<Rightarrow> app_except e
           | Inr response \<Rightarrow>
               (let result = (case response of WithContent c \<Rightarrow> c | WithoutContent s \<Rightarrow> s)
                in [Subheader (str ''Extracted Medical Entities''),
                    Markdown result,
                    Download_button (str ''Download Results'') result
                      (str ''medical_entities.txt'') (str ''text/plain'')])))"

definition app_start :: "ui list" where
  "app_start =
     [Load_dotenv, Getenv GROQ_API_KEY, Set_page_config (str ''Medical Entity Extractor'')]"

definition app_widgets :: "ui list" where
  "app_widgets =
     [Title (str ''Medical Entity Extractor''),
      Write (str ''This tool extracts medical entities from text using the Groq LLM API.''),
      Text_area (str ''Enter the text to analyze:''),
      Button (str ''Analyze'')]"

definition app :: "world \<Rightarrow> browser \<Rightarrow> ui list \<times> outcome" where
  "app w b =
     (let groq_api_key = environ w GROQ_API_KEY in
      if \<not> truthy_opt groq_api_key then
        (app_start @
         [Error (str ''GROQ_API_KEY not found. Please check your environment variables.'')],
         Stopped)
      else
        (case new_ChatGroq w (ChatGroq_app groq_api_key) of
           Inl e \<Rightarrow>
             (app_start @ [New_ChatGroq (ChatGroq_app groq_api_key),
                           Error (str ''Error initializing ChatGroq: '' @ e)],
              Stopped)
         | Inr _ \<Rightarrow>
             (let llm = ChatGroq_app groq_api_key;
                  page = app_start @ [New_ChatGroq llm] @ app_widgets
              in if clicked b = ClickAnalyze then
                   (if truthy (strip (input_text b)) then
                      (page @ [Spinner (str ''Analyzing text...'')] @ app_try w llm (input_text b),
                       Finished)
                    else (page @ [Warning (str ''Please enter some text to analyze.'')], Finished))
                 else (page, Finished))))"

subsection \<open>app2.py\<close>

definition ChatGroq_app2 :: "pystr option \<Rightarrow> chat_groq" where
  "ChatGroq_app2 key =
     \<lparr>api_key = key, model = str ''mixtral-8x7b-32768'', temperature = 0,
      max_tokens = 1000, timeout = 15, max_retries = 3\<rparr>"

definition setup_ui :: "ui list" where
  "setup_ui =
     [Title ([128269] @ str '' Advanced Entity Extractor''),
      Markdown (concat
        [str ''\<newline>'',
         str ''        This tool extracts named entities from text and identifies associated geographic information.\<newline>'',
         str ''        Enter your text below to analyze people, organizations, and locations.\<newline>'',
         str ''        ''])]"

text \<open>
  \<open>initialize_llm\<close>: the client, or \<open>None\<close> after showing the constructor's exception.
\<close>

definition initialize_llm :: "world \<Rightarrow> pystr option \<Rightarrow> ui list \<times> chat_groq option" where
  "initialize_llm w key =
     (case new_ChatGroq w (ChatGroq_app2 key) of
        Inl e \<Rightarrow>
          ([New_ChatGroq (ChatGroq_app2 key), Error (str ''Failed to initialize LLM: '' @ e)],
           None)
      | Inr _ \<Rightarrow> ([New_ChatGroq (ChatGroq_app2 key)], Some (ChatGroq_app2 key)))"

definition process_except :: "exn \<Rightarrow> ui list" where
  "process_except e =
     [Error ([10060] @ str '' Error during processing: '' @ e),
      Info (str ''Please try again or check your input text.'')]"

definition process_try :: "world \<Rightarrow> chat_groq \<Rightarrow> pystr \<Rightarrow> ui list" where
  "process_try w llm text =
     (case formatted_prompt prompt2 text of
        Inl e \<Rightarrow> process_except (fmt_error_text e)
      | Inr p \<Rightarrow>
          Spinner ([128260] @ str '' Analyzing text...'') #
          Invoke llm [HumanMessage p] #
          (case invoke w llm [HumanMessage p] of
             Inl e \<Rightarrow> process_except e
           | Inr response \<Rightarrow>
               (let result = (case response of WithContent c \<Rightarrow> c | WithoutContent s \<Rightarrow> s)
                in [Subheader ([128202] @ str '' Extracted Entities''),
                    Markdown result,
                    Info ([9889] @ str '' Processing completed in '' @ elapsed w @ str '' seconds''),
                    Download_button ([128229] @ str '' Download Results'') result
                      (str ''extracted_entities.md'') (str ''text/markdown'')])))"

definition process_text :: "world \<Rightarrow> pystr option \<Rightarrow> pystr \<Rightarrow> ui list" where
  "process_text w key text =
     (if \<not> truthy_opt key then
        [Error ([9888, 65039] @
                str '' GROQ_API_KEY not found. Please check your environment variables.'')]
      else
        (case initialize_llm w key of
           (shown, None) \<Rightarrow> shown
         | (shown, Some llm) \<Rightarrow> shown @ process_try w llm text))"

text \<open>
  Streamlit keeps the value of a widget that has a \<open>key\<close> in \<open>st.session_state\<close> under
  that key, and refuses an assignment to the entry of a widget that the running script
  has already created: the assignment raises \<open>StreamlitAPIException\<close>.
\<close>

definition set_session_state ::
    "pystr list \<Rightarrow> pystr \<Rightarrow> pystr \<Rightarrow> (pystr \<rightharpoonup> pystr) \<Rightarrow> exn + (pystr \<rightharpoonup> pystr)" where
  "set_session_state widget_keys k v session_state =
     (if k \<in> set widget_keys then
        Inl ([96] @ str ''st.session_state.'' @ k @ [96] @
             str '' cannot be modified after the widget with key '' @ [96] @ k @ [96] @
             str '' is instantiated.'')
      else Inr (session_state(k \<mapsto> v)))"

definition main_widgets :: "ui list" where
  "main_widgets =
     [Text_area (str ''Enter text to analyze:''),
      Columns,
      Button ([128269] @ str '' Analyze''),
      Button ([128465, 65039] @ str '' Clear'')]"

record run2 =
  shown :: "ui list"
  ending :: outcome
  session_state :: "pystr \<rightharpoonup> pystr"

definition main :: "world \<Rightarrow> browser \<Rightarrow> run2" where
  "main w b =
     (let api_key = environ w GROQ_API_KEY;
          page = [Getenv GROQ_API_KEY] @ setup_ui @ main_widgets;
          state = [str ''input_area'' \<mapsto> input_text b];
          widget_keys = [str ''input_area'']
      in if clicked b = ClickClear then
           (case set_session_state widget_keys (str ''input_area'') [] state of
              Inl e \<Rightarrow> \<lparr>shown = page, ending = Raised e, session_state = state\<rparr>
            | Inr state' \<Rightarrow> \<lparr>shown = page, ending = Rerun, session_state = state'\<rparr>)
         else if clicked b = ClickAnalyze \<and> truthy (strip (input_text b)) then
           \<lparr>shown = page @ process_text w api_key (input_text b), ending = Finished,
            session_state = state\<rparr>
         else if clicked b = ClickAnalyze then
           \<lparr>shown = page @ [Warning ([9888, 65039] @ str '' Please enter some text to analyze.'')],
            ending = Finished, session_state = state\<rparr>
         else \<lparr>shown = page, ending = Finished, session_state = state\<rparr>)"

definition app2_start :: "ui list" where
  "app2_start = [Load_dotenv, Set_page_config (str ''Entity Extractor'')]"

definition app2 :: "world \<Rightarrow> browser \<Rightarrow> run2" where
  "app2 w b = (let r = main w b in r\<lparr>shown := app2_start @ shown r\<rparr>)"

text \<open>The content of the text box of app2.py after a run: the entry of its key.\<close>

definition text_box :: "run2 \<Rightarrow> pystr" where
  "text_box r = (case session_state r (str ''input_area'') of None \<Rightarrow> [] | Some t \<Rightarrow> t)"

subsection \<open>Sessions\<close>



section \<open>Properties stated by the specification\<close>

text \<open>
  The formatted prompt holds the input text exactly once when the text starts at exactly
  one position of it.
\<close>

definition embedded_once :: "prompt_template \<Rightarrow> pystr \<Rightarrow> bool" where
  "embedded_once p t =
     (case formatted_prompt p t of Inl e \<Rightarrow> False | Inr out \<Rightarrow> occurrences t out = 1)"


text \<open>A text without braces, and a text without its last \<open>n\<close> code points.\<close>

definition brace_free :: "pystr \<Rightarrow> bool" where
  "brace_free s \<longleftrightarrow> list_all (\<lambda>c. c \<noteq> 123 \<and> c \<noteq> 125) s"

definition butlast_n :: "nat \<Rightarrow> pystr \<Rightarrow> pystr" where
  "butlast_n n s = take (length s - n) s"


subsection \<open>Sample runs\<close>

definition world_ok :: "(exn + response) \<Rightarrow> world" where
  "world_ok answer =
     \<lparr>environ = [GROQ_API_KEY \<mapsto> str ''gsk_test''],
      new_ChatGroq = (\<lambda>llm. Inr ()),
      invoke = (\<lambda>llm messages. answer),
      elapsed = str ''0.42''\<rparr>"



definition table_ABC :: pystr where
  "table_ABC = str ''| A | B | C |''"

definition type_and_analyze :: "pystr \<Rightarrow> browser" where
  "type_and_analyze t = \<lparr>input_text = t, clicked = ClickAnalyze\<rparr>"

definition type_and_clear :: "pystr \<Rightarrow> browser" where
  "type_and_clear t = \<lparr>input_text = t, clicked = ClickClear\<rparr>"

fun is_Error :: "ui \<Rightarrow> bool" where
  "is_Error (Error m) = True"
| "is_Error e = False"

definition world_answers :: world where
  "world_answers = world_ok (Inr (WithContent table_ABC))"

definition world_timeout :: world where
  "world_timeout = world_ok (Inl (str ''Request timed out.''))"

section \<open>The formatter on the two templates\<close>

lemma parse_brace_free: "brace_free s \<Longrightarrow> parse (s @ r) = foldr lit_cons s (parse r)"
  by (induction s) (auto simp: brace_free_def)

lemma lit_cons_run_Nil: "s \<noteq> [] \<Longrightarrow> foldr lit_cons s [] = [Literal s]"
proof (induction s)
  case Nil
  then show ?case by simp
next
  case (Cons c s)
  then show ?case by (cases s) auto
qed

lemma lit_cons_run_Replacement:
  "s \<noteq> [] \<Longrightarrow> foldr lit_cons s (Replacement n # segs) = Literal s # Replacement n # segs"
proof (induction s)
  case Nil
  then show ?case by simp
next
  case (Cons c s)
  then show ?case by (cases s) auto
qed

lemma parse_text_field: "parse (str ''{text}'' @ r) = Replacement (str ''text'') # parse r"
  by (simp add: str_def field_def plain_name_def)

lemma parse_one_field:
  assumes "brace_free h" "h \<noteq> []" "brace_free t" "t \<noteq> []"
  shows "parse (h @ str ''{text}'' @ t) = [Literal h, Replacement (str ''text''), Literal t]"
proof -
  have "parse t = [Literal t]"
    using parse_brace_free [OF assms(3), of "[]"] lit_cons_run_Nil [OF assms(4)] by simp
  then have "parse (str ''{text}'' @ t) = [Replacement (str ''text''), Literal t]"
    by (simp only: parse_text_field)
  then show ?thesis
    using parse_brace_free [OF assms(1), of "str ''{text}'' @ t"]
      lit_cons_run_Replacement [OF assms(2)] by simp
qed

lemma template_head_plain: "brace_free template_head \<and> template_head \<noteq> []"
  by (simp add: brace_free_def template_head_def str_def)

lemma template_tail_plain: "brace_free template_tail \<and> template_tail \<noteq> []"
  by (simp add: brace_free_def template_tail_def str_def)

lemma PROMPT_TEMPLATE_head_plain: "brace_free PROMPT_TEMPLATE_head \<and> PROMPT_TEMPLATE_head \<noteq> []"
  by (simp add: brace_free_def PROMPT_TEMPLATE_head_def str_def)

lemma PROMPT_TEMPLATE_tail_plain: "brace_free PROMPT_TEMPLATE_tail \<and> PROMPT_TEMPLATE_tail \<noteq> []"
  by (simp add: brace_free_def PROMPT_TEMPLATE_tail_def str_def)

lemma parse_template:
  "parse template = [Literal template_head, Replacement (str ''text''), Literal template_tail]"
  unfolding template_def using template_head_plain template_tail_plain
  by (intro parse_one_field) simp_all

lemma parse_PROMPT_TEMPLATE:
  "parse PROMPT_TEMPLATE =
     [Literal PROMPT_TEMPLATE_head, Replacement (str ''text''), Literal PROMPT_TEMPLATE_tail]"
  unfolding PROMPT_TEMPLATE_def using PROMPT_TEMPLATE_head_plain PROMPT_TEMPLATE_tail_plain
  by (intro parse_one_field) simp_all

lemma formatted_prompt_app:
  "formatted_prompt prompt t = Inr (template_head @ t @ template_tail)"
  by (simp add: formatted_prompt_def format_def prompt_def parse_template)

lemma formatted_prompt_app2:
  "formatted_prompt prompt2 t = Inr (PROMPT_TEMPLATE_head @ t @ PROMPT_TEMPLATE_tail)"
  by (simp add: formatted_prompt_def format_def prompt2_def parse_PROMPT_TEMPLATE)

lemma occurrences_self: "1 \<le> occurrences t (t @ s)"
proof (cases "t @ s")
  case Nil
  then show ?thesis by simp
next
  case (Cons a l)
  have "prefix t (a # l)"
    unfolding Cons [symmetric] by simp
  then show ?thesis
    by (simp add: Cons)
qed

lemma occurrences_embedded: "1 \<le> occurrences t (p @ t @ s)"
proof (induction p)
  case Nil
  show ?case using occurrences_self [of t s] by simp
next
  case (Cons a p)
  then show ?case by simp
qed

lemma occurrences_twice:
  assumes "t \<noteq> []"
  shows "2 \<le> occurrences t (a @ t @ b @ t @ c)"
proof (induction a)
  case Nil
  obtain x xs where t: "t = x # xs"
    using assms by (cases t) auto
  have "1 \<le> occurrences t ((xs @ b) @ t @ c)"
    by (rule occurrences_embedded)
  then show ?case
    by (simp add: t)
next
  case (Cons y a)
  then show ?case by simp
qed

lemma all_dropWhile: "(\<forall>x \<in> set (dropWhile P s). P x) \<longleftrightarrow> (\<forall>x \<in> set s. P x)"
  by (induction s) auto

lemma strip_empty_iff: "strip s = [] \<longleftrightarrow> (\<forall>c \<in> set s. isspace c)"
  by (simp add: strip_def dropWhile_eq_Nil_conv all_dropWhile)

lemma strip_fever: "truthy (strip (str ''fever''))"
  by (simp add: truthy_def strip_def str_def isspace_def)

section \<open>Runs of the two pages\<close>

lemma app_unset:
  assumes "\<not> truthy_opt (environ w GROQ_API_KEY)"
  shows "app w b =
    (app_start @
     [Error (str ''GROQ_API_KEY not found. Please check your environment variables.'')],
     Stopped)"
  using assms by (simp add: app_def)

lemma app_broken:
  assumes "truthy_opt (environ w GROQ_API_KEY)"
    and "new_ChatGroq w (ChatGroq_app (environ w GROQ_API_KEY)) = Inl e"
  shows "app w b =
    (app_start @ [New_ChatGroq (ChatGroq_app (environ w GROQ_API_KEY)),
                  Error (str ''Error initializing ChatGroq: '' @ e)],
     Stopped)"
  using assms by (simp add: app_def)

lemma app_ready:
  assumes "truthy_opt (environ w GROQ_API_KEY)"
    and "new_ChatGroq w (ChatGroq_app (environ w GROQ_API_KEY)) = Inr x"
  shows "app w b =
    (let llm = ChatGroq_app (environ w GROQ_API_KEY);
         page = app_start @ [New_ChatGroq llm] @ app_widgets
     in if clicked b = ClickAnalyze then
          (if truthy (strip (input_text b)) then
             (page @ [Spinner (str ''Analyzing text...'')] @ app_try w llm (input_text b),
              Finished)
           else (page @ [Warning (str ''Please enter some text to analyze.'')], Finished))
        else (page, Finished))"
  using assms by (simp add: app_def)

lemma app_try_cases:
  "app_try w llm t =
     Invoke llm [HumanMessage (template_head @ t @ template_tail)] #
     (case invoke w llm [HumanMessage (template_head @ t @ template_tail)] of
        Inl e \<Rightarrow> app_except e
      | Inr r \<Rightarrow>
          [Subheader (str ''Extracted Medical Entities''),
           Markdown (case r of WithContent c \<Rightarrow> c | WithoutContent s \<Rightarrow> s),
           Download_button (str ''Download Results'')
             (case r of WithContent c \<Rightarrow> c | WithoutContent s \<Rightarrow> s)
             (str ''medical_entities.txt'') (str ''text/plain'')])"
  by (simp add: app_try_def formatted_prompt_app Let_def split: sum.split)

lemma process_try_cases:
  "process_try w llm t =
     Spinner ([128260] @ str '' Analyzing text...'') #
     Invoke llm [HumanMessage (PROMPT_TEMPLATE_head @ t @ PROMPT_TEMPLATE_tail)] #
     (case invoke w llm [HumanMessage (PROMPT_TEMPLATE_head @ t @ PROMPT_TEMPLATE_tail)] of
        Inl e \<Rightarrow> process_except e
      | Inr r \<Rightarrow>
          [Subheader ([128202] @ str '' Extracted Entities''),
           Markdown (case r of WithContent c \<Rightarrow> c | WithoutContent s \<Rightarrow> s),
           Info ([9889] @ str '' Processing completed in '' @ elapsed w @ str '' seconds''),
           Download_button ([128229] @ str '' Download Results'')
             (case r of WithContent c \<Rightarrow> c | WithoutContent s \<Rightarrow> s)
             (str ''extracted_entities.md'') (str ''text/markdown'')])"
  by (simp add: process_try_def formatted_prompt_app2 Let_def split: sum.split)

lemma app2_analyze:
  assumes "clicked b = ClickAnalyze" and "truthy (strip (input_text b))"
  shows "shown (app2 w b) =
      app2_start @ [Getenv GROQ_API_KEY] @ setup_ui @ main_widgets @
      process_text w (environ w GROQ_API_KEY) (input_text b)"
    and "ending (app2 w b) = Finished"
    and "session_state (app2 w b) = [str ''input_area'' \<mapsto> input_text b]"
  using assms by (simp_all add: app2_def main_def Let_def)

lemma app2_blank:
  assumes "clicked b = ClickAnalyze" and "\<not> truthy (strip (input_text b))"
  shows "shown (app2 w b) =
      app2_start @ [Getenv GROQ_API_KEY] @ setup_ui @ main_widgets @
      [Warning ([9888, 65039] @ str '' Please enter some text to analyze.'')]"
    and "ending (app2 w b) = Finished"
  using assms by (simp_all add: app2_def main_def Let_def)

lemma app2_idle:
  assumes "clicked b = NoClick"
  shows "shown (app2 w b) = app2_start @ [Getenv GROQ_API_KEY] @ setup_ui @ main_widgets"
    and "ending (app2 w b) = Finished"
  using assms by (simp_all add: app2_def main_def Let_def)

lemma app2_clear:
  assumes "clicked b = ClickClear"
  shows "shown (app2 w b) = app2_start @ [Getenv GROQ_API_KEY] @ setup_ui @ main_widgets"
    and "ending (app2 w b) =
      Raised ([96] @ str ''st.session_state.'' @ str ''input_area'' @ [96] @
              str '' cannot be modified after the widget with key '' @ [96] @
              str ''input_area'' @ [96] @ str '' is instantiated.'')"
    and "session_state (app2 w b) = [str ''input_area'' \<mapsto> input_text b]"
  using assms by (simp_all add: app2_def main_def Let_def set_session_state_def)



lemma process_text_ready:
  assumes "truthy_opt key" and "new_ChatGroq w (ChatGroq_app2 key) = Inr x"
  shows "process_text w key t =
    New_ChatGroq (ChatGroq_app2 key) # process_try w (ChatGroq_app2 key) t"
  using assms by (simp add: process_text_def initialize_llm_def)






lemma world_ok_sel:
  "environ (world_ok a) GROQ_API_KEY = Some (str ''gsk_test'')"
  "truthy_opt (environ (world_ok a) GROQ_API_KEY)"
  "new_ChatGroq (world_ok a) llm = Inr ()"
  "invoke (world_ok a) llm ms = a"
  "elapsed (world_ok a) = str ''0.42''"
  by (simp_all add: world_ok_def truthy_def str_def)



lemma type_and_analyze_sel:
  "input_text (type_and_analyze t) = t"
  "clicked (type_and_analyze t) = ClickAnalyze"
  by (simp_all add: type_and_analyze_def)

lemma type_and_clear_sel:
  "input_text (type_and_clear t) = t"
  "clicked (type_and_clear t) = ClickClear"
  by (simp_all add: type_and_clear_def)

section \<open>Claims\<close>




text \<open>
  C3: for every input that is empty or consists of white space only, pressing Analyze
  (in app.py the run reaches the Analyze button, in app2.py it always does) sends no
  request to the model endpoint and shows the warning that asks for text.
\<close>

theorem blank_input_warns:
  assumes "\<forall>c \<in> set (input_text b). isspace c" and "clicked b = ClickAnalyze"
  shows "(Button (str ''Analyze'') \<in> set (fst (app w b)) \<longrightarrow>
            \<not> list_ex is_Invoke (fst (app w b)) \<and>
            Warning (str ''Please enter some text to analyze.'') \<in> set (fst (app w b))) \<and>
         \<not> list_ex is_Invoke (shown (app2 w b)) \<and>
         Warning ([9888, 65039] @ str '' Please enter some text to analyze.'')
           \<in> set (shown (app2 w b))"
proof -
  have blank: "\<not> truthy (strip (input_text b))"
    using assms(1) by (simp add: truthy_def strip_empty_iff)
  have v1: "Button (str ''Analyze'') \<in> set (fst (app w b)) \<longrightarrow>
            \<not> list_ex is_Invoke (fst (app w b)) \<and>
            Warning (str ''Please enter some text to analyze.'') \<in> set (fst (app w b))"
  proof (cases "truthy_opt (environ w GROQ_API_KEY)")
    case False
    then show ?thesis
      by (simp add: app_unset app_start_def)
  next
    case True
    show ?thesis
    proof (cases "new_ChatGroq w (ChatGroq_app (environ w GROQ_API_KEY))")
      case (Inl e)
      then show ?thesis
        by (simp add: app_broken [OF True] app_start_def)
    next
      case (Inr x)
      then show ?thesis
        using blank assms(2)
        by (simp add: app_ready [OF True] Let_def app_start_def app_widgets_def)
    qed
  qed
  have v2: "\<not> list_ex is_Invoke (shown (app2 w b)) \<and>
      Warning ([9888, 65039] @ str '' Please enter some text to analyze.'')
        \<in> set (shown (app2 w b))"
    using blank assms(2)
    by (simp add: app2_blank app2_start_def setup_ui_def main_widgets_def)
  show ?thesis
    using v1 v2 by blast
qed

theorem blank_input_warns_witness:
  "list_all isspace (input_text (type_and_analyze (str ''  ''))) \<and>
   clicked (type_and_analyze (str ''  '')) = ClickAnalyze \<and>
   Button (str ''Analyze'') \<in> set (fst (app world_answers (type_and_analyze (str ''  '')))) \<and>
   \<not> list_ex is_Invoke (fst (app world_answers (type_and_analyze (str ''  '')))) \<and>
   Warning (str ''Please enter some text to analyze.'')
     \<in> set (fst (app world_answers (type_and_analyze (str ''  '')))) \<and>
   \<not> list_ex is_Invoke (shown (app2 world_answers (type_and_analyze (str ''  '')))) \<and>
   Warning ([9888, 65039] @ str '' Please enter some text to analyze.'')
     \<in> set (shown (app2 world_answers (type_and_analyze (str ''  ''))))"
proof -
  have h1: "\<forall>c \<in> set (input_text (type_and_analyze (str ''  ''))). isspace c"
    by (simp add: type_and_analyze_sel str_def isspace_def)
  have h2: "clicked (type_and_analyze (str ''  '')) = ClickAnalyze"
    by (simp add: type_and_analyze_sel)
  have h3: "Button (str ''Analyze'')
      \<in> set (fst (app world_answers (type_and_analyze (str ''  ''))))"
  proof -
    have "\<not> truthy (strip (str ''  ''))"
      by (simp add: truthy_def strip_def str_def isspace_def)
    then show ?thesis
      using app_ready [OF world_ok_sel(2) world_ok_sel(3),
          of "Inr (WithContent table_ABC)" "type_and_analyze (str ''  '')"]
      by (simp add: world_answers_def Let_def type_and_analyze_sel app_widgets_def)
  qed
  have h0: "list_all isspace (input_text (type_and_analyze (str ''  '')))"
    using h1 by (simp only: list_all_iff)
  show ?thesis
    using h0 h2 h3 blank_input_warns [OF h1 h2, of world_answers] by blast
qed

text \<open>
  C2, as the specification states it, fails: the text \<open>text\<close> is not empty, and the prompt
  formatted from it holds it three times with the first template (in \<open>Input text:\<close>, at
  the substitution point and in \<open>Context\<close>) and four times with the second.
\<close>

theorem prompt_text_not_once:
  "str ''text'' \<noteq> [] \<and> \<not> embedded_once prompt (str ''text'') \<and>
   \<not> embedded_once prompt2 (str ''text'')"
proof -
  have ne: "str ''text'' \<noteq> []"
    by (simp add: str_def)
  have "template_head = (butlast_n 6 template_head) @ str ''text'' @ str '': ''"
    by (simp add: template_head_def str_def butlast_n_def)
  then obtain h where h: "template_head = h @ str ''text'' @ str '': ''"
    by (rule that)
  have one: "2 \<le> occurrences (str ''text'') (template_head @ str ''text'' @ template_tail)"
    unfolding h using occurrences_twice [OF ne, of h "str '': ''" template_tail] by simp
  have "PROMPT_TEMPLATE_head =
      (butlast_n 6 PROMPT_TEMPLATE_head) @ str ''text'' @ str '': ''"
    by (simp add: PROMPT_TEMPLATE_head_def str_def butlast_n_def)
  then obtain k where k: "PROMPT_TEMPLATE_head = k @ str ''text'' @ str '': ''"
    by (rule that)
  have two: "2 \<le> occurrences (str ''text'')
      (PROMPT_TEMPLATE_head @ str ''text'' @ PROMPT_TEMPLATE_tail)"
    unfolding k using occurrences_twice [OF ne, of k "str '': ''" PROMPT_TEMPLATE_tail] by simp
  show ?thesis
    using ne one two by (simp add: embedded_once_def formatted_prompt_app formatted_prompt_app2)
qed

text \<open>
  C2, amended: for every non-empty input text and each of the two templates, formatting
  succeeds and the prompt is the template's text before the substitution point, then the
  input text unchanged, then the template's text after it; so the input text is a
  contiguous substring of the prompt at least once.
\<close>

theorem prompt_embeds_text:
  assumes "t \<noteq> []"
  shows "formatted_prompt prompt t = Inr (template_head @ t @ template_tail) \<and>
         formatted_prompt prompt2 t = Inr (PROMPT_TEMPLATE_head @ t @ PROMPT_TEMPLATE_tail) \<and>
         1 \<le> occurrences t (template_head @ t @ template_tail) \<and>
         1 \<le> occurrences t (PROMPT_TEMPLATE_head @ t @ PROMPT_TEMPLATE_tail)"
  by (simp only: formatted_prompt_app formatted_prompt_app2 occurrences_embedded simp_thms)

theorem prompt_embeds_text_witness:
  "str ''fever'' \<noteq> [] \<and>
   formatted_prompt prompt (str ''fever'') = Inr (template_head @ str ''fever'' @ template_tail) \<and>
   formatted_prompt prompt2 (str ''fever'') =
     Inr (PROMPT_TEMPLATE_head @ str ''fever'' @ PROMPT_TEMPLATE_tail) \<and>
   1 \<le> occurrences (str ''fever'') (template_head @ str ''fever'' @ template_tail) \<and>
   1 \<le> occurrences (str ''fever'') (PROMPT_TEMPLATE_head @ str ''fever'' @ PROMPT_TEMPLATE_tail)"
proof -
  have h: "str ''fever'' \<noteq> []"
    by (simp add: str_def)
  show ?thesis
    using h prompt_embeds_text [OF h] by simp
qed

text \<open>
  C4: when the model client returns a completion string (a response whose content is
  that string), the page renders exactly that string as markdown and offers exactly that
  string for download, under the file name \<open>medical_entities.txt\<close> in app.py and
  \<open>extracted_entities.md\<close> in app2.py.
\<close>

theorem completion_round_trip:
  assumes "truthy_opt (environ w GROQ_API_KEY)"
    and "\<forall>llm. new_ChatGroq w llm = Inr ()"
    and "\<forall>llm messages. invoke w llm messages = Inr (WithContent s)"
    and "clicked b = ClickAnalyze"
    and "truthy (strip (input_text b))"
  shows "fst (app w b) =
      app_start @ [New_ChatGroq (ChatGroq_app (environ w GROQ_API_KEY))] @ app_widgets @
      [Spinner (str ''Analyzing text...''),
       Invoke (ChatGroq_app (environ w GROQ_API_KEY))
         [HumanMessage (template_head @ input_text b @ template_tail)],
       Subheader (str ''Extracted Medical Entities''),
       Markdown s,
       Download_button (str ''Download Results'') s
         (str ''medical_entities.txt'') (str ''text/plain'')] \<and>
    shown (app2 w b) =
      app2_start @ [Getenv GROQ_API_KEY] @ setup_ui @ main_widgets @
      [New_ChatGroq (ChatGroq_app2 (environ w GROQ_API_KEY)),
       Spinner ([128260] @ str '' Analyzing text...''),
       Invoke (ChatGroq_app2 (environ w GROQ_API_KEY))
         [HumanMessage (PROMPT_TEMPLATE_head @ input_text b @ PROMPT_TEMPLATE_tail)],
       Subheader ([128202] @ str '' Extracted Entities''),
       Markdown s,
       Info ([9889] @ str '' Processing completed in '' @ elapsed w @ str '' seconds''),
       Download_button ([128229] @ str '' Download Results'') s
         (str ''extracted_entities.md'') (str ''text/markdown'')]"
proof -
  have ctor: "new_ChatGroq w (ChatGroq_app (environ w GROQ_API_KEY)) = Inr ()"
    and ctor2: "new_ChatGroq w (ChatGroq_app2 (environ w GROQ_API_KEY)) = Inr ()"
    using assms(2) by simp_all
  have v1: "fst (app w b) =
      app_start @ [New_ChatGroq (ChatGroq_app (environ w GROQ_API_KEY))] @ app_widgets @
      [Spinner (str ''Analyzing text...''),
       Invoke (ChatGroq_app (environ w GROQ_API_KEY))
         [HumanMessage (template_head @ input_text b @ template_tail)],
       Subheader (str ''Extracted Medical Entities''),
       Markdown s,
       Download_button (str ''Download Results'') s
         (str ''medical_entities.txt'') (str ''text/plain'')]"
    using assms(3,4,5)
    by (simp add: app_ready [OF assms(1) ctor] Let_def app_try_cases)
  have v2: "shown (app2 w b) =
      app2_start @ [Getenv GROQ_API_KEY] @ setup_ui @ main_widgets @
      [New_ChatGroq (ChatGroq_app2 (environ w GROQ_API_KEY)),
       Spinner ([128260] @ str '' Analyzing text...''),
       Invoke (ChatGroq_app2 (environ w GROQ_API_KEY))
         [HumanMessage (PROMPT_TEMPLATE_head @ input_text b @ PROMPT_TEMPLATE_tail)],
       Subheader ([128202] @ str '' Extracted Entities''),
       Markdown s,
       Info ([9889] @ str '' Processing completed in '' @ elapsed w @ str '' seconds''),
       Download_button ([128229] @ str '' Download Results'') s
         (str ''extracted_entities.md'') (str ''text/markdown'')]"
    using assms(3)
    by (simp add: app2_analyze [OF assms(4,5)] process_text_ready [OF assms(1) ctor2]
        process_try_cases)
  show ?thesis
    using v1 v2 by (rule conjI)
qed

theorem completion_round_trip_witness:
  "truthy_opt (environ world_answers GROQ_API_KEY) \<and>
   (\<forall>llm. new_ChatGroq world_answers llm = Inr ()) \<and>
   (\<forall>llm messages. invoke world_answers llm messages = Inr (WithContent table_ABC)) \<and>
   clicked (type_and_analyze (str ''fever'')) = ClickAnalyze \<and>
   truthy (strip (input_text (type_and_analyze (str ''fever'')))) \<and>
   fst (app world_answers (type_and_analyze (str ''fever''))) =
      app_start @ [New_ChatGroq (ChatGroq_app (Some (str ''gsk_test'')))] @ app_widgets @
      [Spinner (str ''Analyzing text...''),
       Invoke (ChatGroq_app (Some (str ''gsk_test'')))
         [HumanMessage (template_head @ str ''fever'' @ template_tail)],
       Subheader (str ''Extracted Medical Entities''),
       Markdown (str ''| A | B | C |''),
       Download_button (str ''Download Results'') (str ''| A | B | C |'')
         (str ''medical_entities.txt'') (str ''text/plain'')] \<and>
   shown (app2 world_answers (type_and_analyze (str ''fever''))) =
      app2_start @ [Getenv GROQ_API_KEY] @ setup_ui @ main_widgets @
      [New_ChatGroq (ChatGroq_app2 (Some (str ''gsk_test''))),
       Spinner ([128260] @ str '' Analyzing text...''),
       Invoke (ChatGroq_app2 (Some (str ''gsk_test'')))
         [HumanMessage (PROMPT_TEMPLATE_head @ str ''fever'' @ PROMPT_TEMPLATE_tail)],
       Subheader ([128202] @ str '' Extracted Entities''),
       Markdown (str ''| A | B | C |''),
       Info ([9889] @ str '' Processing completed in '' @ str ''0.42'' @ str '' seconds''),
       Download_button ([128229] @ str '' Download Results'') (str ''| A | B | C |'')
         (str ''extracted_entities.md'') (str ''text/markdown'')]"
proof -
  have h1: "truthy_opt (environ world_answers GROQ_API_KEY)"
    unfolding world_answers_def by (rule world_ok_sel(2))
  have h2: "\<forall>llm. new_ChatGroq world_answers llm = Inr ()"
    by (simp add: world_answers_def world_ok_sel)
  have h3: "\<forall>llm messages. invoke world_answers llm messages = Inr (WithContent table_ABC)"
    by (simp add: world_answers_def world_ok_sel)
  have h4: "clicked (type_and_analyze (str ''fever'')) = ClickAnalyze"
    by (simp add: type_and_analyze_sel)
  have h5: "truthy (strip (input_text (type_and_analyze (str ''fever''))))"
    by (simp add: type_and_analyze_sel strip_fever)
  have sel: "environ world_answers GROQ_API_KEY = Some (str ''gsk_test'')"
    "elapsed world_answers = str ''0.42''"
    "input_text (type_and_analyze (str ''fever'')) = str ''fever''"
    "table_ABC = str ''| A | B | C |''"
    by (simp_all add: world_answers_def world_ok_sel type_and_analyze_sel table_ABC_def)
  show ?thesis
    using h1 h2 h3 h4 h5 completion_round_trip [OF h1 h2 h3 h4 h5]
    unfolding sel by blast
qed

text \<open>
  C5: every request that a page sends to the model endpoint carries the client
  configuration of its variant (temperature 0 in both; 500 output tokens and a timeout
  of 10 seconds in app.py, 1000 and 15 in app2.py) and a single message whose content is
  the formatted prompt of the submitted text.
\<close>

theorem request_configuration:
  "(Invoke llm messages \<in> set (fst (app w b)) \<longrightarrow>
      temperature llm = 0 \<and> max_tokens llm = 500 \<and> timeout llm = 10 \<and>
      (\<exists>p. formatted_prompt prompt (input_text b) = Inr p \<and> messages = [HumanMessage p])) \<and>
   (Invoke llm messages \<in> set (shown (app2 w b)) \<longrightarrow>
      temperature llm = 0 \<and> max_tokens llm = 1000 \<and> timeout llm = 15 \<and>
      (\<exists>p. formatted_prompt prompt2 (input_text b) = Inr p \<and> messages = [HumanMessage p]))"
proof -
  have v1: "Invoke llm messages \<in> set (fst (app w b)) \<longrightarrow>
      llm = ChatGroq_app (environ w GROQ_API_KEY) \<and>
      messages = [HumanMessage (template_head @ input_text b @ template_tail)]"
  proof (cases "truthy_opt (environ w GROQ_API_KEY)")
    case False
    then show ?thesis
      by (simp add: app_unset app_start_def)
  next
    case True
    show ?thesis
    proof (cases "new_ChatGroq w (ChatGroq_app (environ w GROQ_API_KEY))")
      case (Inl e)
      then show ?thesis
        by (simp add: app_broken [OF True] app_start_def)
    next
      case (Inr x)
      then show ?thesis
        by (auto simp: app_ready [OF True] Let_def app_start_def app_widgets_def
            app_try_cases app_except_def split: sum.splits if_splits)
    qed
  qed
  have v2: "Invoke llm messages \<in> set (shown (app2 w b)) \<longrightarrow>
      llm = ChatGroq_app2 (environ w GROQ_API_KEY) \<and>
      messages = [HumanMessage (PROMPT_TEMPLATE_head @ input_text b @ PROMPT_TEMPLATE_tail)]"
  proof (cases "clicked b")
    case NoClick
    then show ?thesis
      by (simp add: app2_idle app2_start_def setup_ui_def main_widgets_def)
  next
    case ClickClear
    then show ?thesis
      by (simp add: app2_clear app2_start_def setup_ui_def main_widgets_def)
  next
    case ClickAnalyze
    show ?thesis
    proof (cases "truthy (strip (input_text b))")
      case False
      then show ?thesis
        using ClickAnalyze
        by (simp add: app2_blank app2_start_def setup_ui_def main_widgets_def)
    next
      case True
      then show ?thesis
        using ClickAnalyze
        by (auto simp: app2_analyze app2_start_def setup_ui_def main_widgets_def
            process_text_def initialize_llm_def process_try_cases process_except_def
            split: sum.splits if_splits)
    qed
  qed
  show ?thesis
    using v1 v2
    by (auto simp: ChatGroq_app_def ChatGroq_app2_def formatted_prompt_app
        formatted_prompt_app2)
qed

theorem request_configuration_witness:
  "Invoke (ChatGroq_app (Some (str ''gsk_test'')))
     [HumanMessage (template_head @ str ''fever'' @ template_tail)]
     \<in> set (fst (app world_answers (type_and_analyze (str ''fever'')))) \<and>
   temperature (ChatGroq_app (Some (str ''gsk_test''))) = 0 \<and>
   max_tokens (ChatGroq_app (Some (str ''gsk_test''))) = 500 \<and>
   timeout (ChatGroq_app (Some (str ''gsk_test''))) = 10 \<and>
   formatted_prompt prompt (input_text (type_and_analyze (str ''fever''))) =
     Inr (template_head @ str ''fever'' @ template_tail) \<and>
   Invoke (ChatGroq_app2 (Some (str ''gsk_test'')))
     [HumanMessage (PROMPT_TEMPLATE_head @ str ''fever'' @ PROMPT_TEMPLATE_tail)]
     \<in> set (shown (app2 world_answers (type_and_analyze (str ''fever'')))) \<and>
   temperature (ChatGroq_app2 (Some (str ''gsk_test''))) = 0 \<and>
   max_tokens (ChatGroq_app2 (Some (str ''gsk_test''))) = 1000 \<and>
   timeout (ChatGroq_app2 (Some (str ''gsk_test''))) = 15 \<and>
   formatted_prompt prompt2 (input_text (type_and_analyze (str ''fever''))) =
     Inr (PROMPT_TEMPLATE_head @ str ''fever'' @ PROMPT_TEMPLATE_tail)"
proof -
  have sent: "Invoke (ChatGroq_app (Some (str ''gsk_test'')))
     [HumanMessage (template_head @ str ''fever'' @ template_tail)]
     \<in> set (fst (app world_answers (type_and_analyze (str ''fever''))))"
    using app_ready [OF world_ok_sel(2) world_ok_sel(3),
        of "Inr (WithContent table_ABC)" "type_and_analyze (str ''fever'')"]
    by (simp add: world_answers_def Let_def type_and_analyze_sel strip_fever app_try_cases
        world_ok_sel)
  have sent2: "Invoke (ChatGroq_app2 (Some (str ''gsk_test'')))
     [HumanMessage (PROMPT_TEMPLATE_head @ str ''fever'' @ PROMPT_TEMPLATE_tail)]
     \<in> set (shown (app2 world_answers (type_and_analyze (str ''fever''))))"
    using process_text_ready [OF world_ok_sel(2) world_ok_sel(3),
        of "Inr (WithContent table_ABC)" "Inr (WithContent table_ABC)" "str ''fever''"]
    by (simp add: world_answers_def app2_analyze type_and_analyze_sel strip_fever
        process_try_cases world_ok_sel)
  show ?thesis
    using sent sent2
      request_configuration [of "ChatGroq_app (Some (str ''gsk_test''))"
        "[HumanMessage (template_head @ str ''fever'' @ template_tail)]"
        world_answers "type_and_analyze (str ''fever'')"]
      request_configuration [of "ChatGroq_app2 (Some (str ''gsk_test''))"
        "[HumanMessage (PROMPT_TEMPLATE_head @ str ''fever'' @ PROMPT_TEMPLATE_tail)]"
        world_answers "type_and_analyze (str ''fever'')"]
    by auto
qed

text \<open>
  C6: when the request to the model endpoint raises, for whatever reason, both variants
  catch the exception, show its text in an error message followed by the suggestion to
  try again or to check the configuration (app.py) or the input text (app2.py), and the
  run ends normally; the page keeps its text box and buttons, and the next run shows
  them again.
\<close>

theorem failure_is_caught:
  assumes "truthy_opt (environ w GROQ_API_KEY)"
    and "\<forall>llm. new_ChatGroq w llm = Inr ()"
    and "\<forall>llm messages. invoke w llm messages = Inl e"
    and "clicked b = ClickAnalyze"
    and "truthy (strip (input_text b))"
  shows "app w b =
      (app_start @ [New_ChatGroq (ChatGroq_app (environ w GROQ_API_KEY))] @ app_widgets @
       [Spinner (str ''Analyzing text...''),
        Invoke (ChatGroq_app (environ w GROQ_API_KEY))
          [HumanMessage (template_head @ input_text b @ template_tail)],
        Error (str ''Error processing text: '' @ e),
        Info (str ''Please try again or check your API configuration.'')],
       Finished) \<and>
    shown (app2 w b) =
      app2_start @ [Getenv GROQ_API_KEY] @ setup_ui @ main_widgets @
      [New_ChatGroq (ChatGroq_app2 (environ w GROQ_API_KEY)),
       Spinner ([128260] @ str '' Analyzing text...''),
       Invoke (ChatGroq_app2 (environ w GROQ_API_KEY))
         [HumanMessage (PROMPT_TEMPLATE_head @ input_text b @ PROMPT_TEMPLATE_tail)],
       Error ([10060] @ str '' Error during processing: '' @ e),
       Info (str ''Please try again or check your input text.'')] \<and>
    ending (app2 w b) = Finished \<and>
    list_ex is_input_widget (fst (app w b')) \<and> snd (app w b') = Finished \<and>
    list_ex is_input_widget (shown (app2 w b'))"
proof -
  have ctor: "new_ChatGroq w (ChatGroq_app (environ w GROQ_API_KEY)) = Inr ()"
    and ctor2: "new_ChatGroq w (ChatGroq_app2 (environ w GROQ_API_KEY)) = Inr ()"
    using assms(2) by simp_all
  have v1: "app w b =
      (app_start @ [New_ChatGroq (ChatGroq_app (environ w GROQ_API_KEY))] @ app_widgets @
       [Spinner (str ''Analyzing text...''),
        Invoke (ChatGroq_app (environ w GROQ_API_KEY))
          [HumanMessage (template_head @ input_text b @ template_tail)],
        Error (str ''Error processing text: '' @ e),
        Info (str ''Please try again or check your API configuration.'')],
       Finished)"
    using assms(3,4,5)
    by (simp add: app_ready [OF assms(1) ctor] Let_def app_try_cases app_except_def)
  have v2: "shown (app2 w b) =
      app2_start @ [Getenv GROQ_API_KEY] @ setup_ui @ main_widgets @
      [New_ChatGroq (ChatGroq_app2 (environ w GROQ_API_KEY)),
       Spinner ([128260] @ str '' Analyzing text...''),
       Invoke (ChatGroq_app2 (environ w GROQ_API_KEY))
         [HumanMessage (PROMPT_TEMPLATE_head @ input_text b @ PROMPT_TEMPLATE_tail)],
       Error ([10060] @ str '' Error during processing: '' @ e),
       Info (str ''Please try again or check your input text.'')]"
    using assms(3)
    by (simp add: app2_analyze [OF assms(4,5)] process_text_ready [OF assms(1) ctor2]
        process_try_cases process_except_def)
  have v3: "ending (app2 w b) = Finished"
    by (rule app2_analyze(2) [OF assms(4,5)])
  have next1: "list_ex is_input_widget (fst (app w b')) \<and> snd (app w b') = Finished"
    by (simp add: app_ready [OF assms(1) ctor] Let_def app_widgets_def)
  have next2: "list_ex is_input_widget (shown (app2 w b'))"
    by (simp add: app2_def main_def Let_def main_widgets_def set_session_state_def)
  show ?thesis
    using v1 v2 v3 next1 next2 by blast
qed

theorem failure_is_caught_witness:
  "truthy_opt (environ world_timeout GROQ_API_KEY) \<and>
   (\<forall>llm. new_ChatGroq world_timeout llm = Inr ()) \<and>
   (\<forall>llm messages. invoke world_timeout llm messages = Inl (str ''Request timed out.'')) \<and>
   clicked (type_and_analyze (str ''fever'')) = ClickAnalyze \<and>
   truthy (strip (input_text (type_and_analyze (str ''fever'')))) \<and>
   app world_timeout (type_and_analyze (str ''fever'')) =
      (app_start @ [New_ChatGroq (ChatGroq_app (Some (str ''gsk_test'')))] @ app_widgets @
       [Spinner (str ''Analyzing text...''),
        Invoke (ChatGroq_app (Some (str ''gsk_test'')))
          [HumanMessage (template_head @ str ''fever'' @ template_tail)],
        Error (str ''Error processing text: '' @ str ''Request timed out.''),
        Info (str ''Please try again or check your API configuration.'')],
       Finished) \<and>
   ending (app2 world_timeout (type_and_analyze (str ''fever''))) = Finished \<and>
   list_ex is_input_widget (fst (app world_timeout (type_and_analyze (str ''cough'')))) \<and>
   list_ex is_input_widget (shown (app2 world_timeout (type_and_analyze (str ''cough''))))"
proof -
  have h1: "truthy_opt (environ world_timeout GROQ_API_KEY)"
    unfolding world_timeout_def by (rule world_ok_sel(2))
  have h2: "\<forall>llm. new_ChatGroq world_timeout llm = Inr ()"
    by (simp add: world_timeout_def world_ok_sel)
  have h3: "\<forall>llm messages. invoke world_timeout llm messages = Inl (str ''Request timed out.'')"
    by (simp add: world_timeout_def world_ok_sel)
  have h4: "clicked (type_and_analyze (str ''fever'')) = ClickAnalyze"
    by (simp add: type_and_analyze_sel)
  have h5: "truthy (strip (input_text (type_and_analyze (str ''fever''))))"
    by (simp add: type_and_analyze_sel strip_fever)
  have sel: "environ world_timeout GROQ_API_KEY = Some (str ''gsk_test'')"
    "input_text (type_and_analyze (str ''fever'')) = str ''fever''"
    by (simp_all add: world_timeout_def world_ok_sel type_and_analyze_sel)
  show ?thesis
    using h1 h2 h3 h4 h5
      failure_is_caught [OF h1 h2 h3 h4 h5, of "type_and_analyze (str ''cough'')"]
    unfolding sel by blast
qed




text \<open>
  C10: for every response of the model client, the string rendered as markdown and the
  string offered for download are the same value: the content of the response when it
  has a \<open>content\<close> attribute (\<open>WithContent\<close>), its \<open>str()\<close> otherwise
  (\<open>WithoutContent\<close>). Taking that value raises nothing: the run shows no error message
  and ends normally.
\<close>

theorem displayed_is_downloaded:
  assumes "truthy_opt (environ w GROQ_API_KEY)"
    and "\<forall>llm. new_ChatGroq w llm = Inr ()"
    and "\<forall>llm messages. invoke w llm messages = Inr r"
    and "clicked b = ClickAnalyze"
    and "truthy (strip (input_text b))"
    and "result = (case r of WithContent c \<Rightarrow> c | WithoutContent s \<Rightarrow> s)"
  shows "filter (\<lambda>e. e = Markdown result) (fst (app w b)) = [Markdown result] \<and>
    Download_button (str ''Download Results'') result
      (str ''medical_entities.txt'') (str ''text/plain'') \<in> set (fst (app w b)) \<and>
    (\<forall>l d f m. Download_button l d f m \<in> set (fst (app w b)) \<longrightarrow> d = result) \<and>
    \<not> list_ex is_Error (fst (app w b)) \<and> snd (app w b) = Finished \<and>
    Markdown result \<in> set (shown (app2 w b)) \<and>
    Download_button ([128229] @ str '' Download Results'') result
      (str ''extracted_entities.md'') (str ''text/markdown'') \<in> set (shown (app2 w b)) \<and>
    (\<forall>l d f m. Download_button l d f m \<in> set (shown (app2 w b)) \<longrightarrow> d = result) \<and>
    \<not> list_ex is_Error (shown (app2 w b)) \<and> ending (app2 w b) = Finished"
proof -
  have ctor: "new_ChatGroq w (ChatGroq_app (environ w GROQ_API_KEY)) = Inr ()"
    and ctor2: "new_ChatGroq w (ChatGroq_app2 (environ w GROQ_API_KEY)) = Inr ()"
    using assms(2) by simp_all
  have res: "result = (case r of WithContent c \<Rightarrow> c | WithoutContent s \<Rightarrow> s)"
    by (rule assms(6))
  have v1: "app w b =
      (app_start @ [New_ChatGroq (ChatGroq_app (environ w GROQ_API_KEY))] @ app_widgets @
       [Spinner (str ''Analyzing text...''),
        Invoke (ChatGroq_app (environ w GROQ_API_KEY))
          [HumanMessage (template_head @ input_text b @ template_tail)],
        Subheader (str ''Extracted Medical Entities''),
        Markdown result,
        Download_button (str ''Download Results'') result
          (str ''medical_entities.txt'') (str ''text/plain'')],
       Finished)"
    using assms(3,4,5)
    by (simp add: app_ready [OF assms(1) ctor] Let_def app_try_cases res)
  have v2: "shown (app2 w b) =
      app2_start @ [Getenv GROQ_API_KEY] @ setup_ui @ main_widgets @
      [New_ChatGroq (ChatGroq_app2 (environ w GROQ_API_KEY)),
       Spinner ([128260] @ str '' Analyzing text...''),
       Invoke (ChatGroq_app2 (environ w GROQ_API_KEY))
         [HumanMessage (PROMPT_TEMPLATE_head @ input_text b @ PROMPT_TEMPLATE_tail)],
       Subheader ([128202] @ str '' Extracted Entities''),
       Markdown result,
       Info ([9889] @ str '' Processing completed in '' @ elapsed w @ str '' seconds''),
       Download_button ([128229] @ str '' Download Results'') result
         (str ''extracted_entities.md'') (str ''text/markdown'')]"
    using assms(3)
    by (simp add: app2_analyze [OF assms(4,5)] process_text_ready [OF assms(1) ctor2]
        process_try_cases res)
  have a: "filter (\<lambda>e. e = Markdown result) (fst (app w b)) = [Markdown result]"
    by (simp add: v1 app_start_def app_widgets_def)
  have b: "Download_button (str ''Download Results'') result
      (str ''medical_entities.txt'') (str ''text/plain'') \<in> set (fst (app w b))"
    by (simp add: v1)
  have c: "\<forall>l d f m. Download_button l d f m \<in> set (fst (app w b)) \<longrightarrow> d = result"
    by (simp add: v1 app_start_def app_widgets_def)
  have d: "\<not> list_ex is_Error (fst (app w b)) \<and> snd (app w b) = Finished"
    by (simp add: v1 app_start_def app_widgets_def)
  have e: "Markdown result \<in> set (shown (app2 w b))"
    by (simp add: v2)
  have f: "Download_button ([128229] @ str '' Download Results'') result
      (str ''extracted_entities.md'') (str ''text/markdown'') \<in> set (shown (app2 w b))"
    by (simp add: v2)
  have g: "\<forall>l d f m. Download_button l d f m \<in> set (shown (app2 w b)) \<longrightarrow> d = result"
    by (simp add: v2 app2_start_def setup_ui_def main_widgets_def)
  have h: "\<not> list_ex is_Error (shown (app2 w b)) \<and> ending (app2 w b) = Finished"
    by (simp add: v2 app2_start_def setup_ui_def main_widgets_def
        app2_analyze(2) [OF assms(4,5)])
  show ?thesis
    using a b c d e f g h by blast
qed

theorem displayed_is_downloaded_witness:
  "truthy_opt (environ (world_ok (Inr (WithoutContent (str ''<reply>'')))) GROQ_API_KEY) \<and>
   clicked (type_and_analyze (str ''fever'')) = ClickAnalyze \<and>
   truthy (strip (input_text (type_and_analyze (str ''fever'')))) \<and>
   filter (\<lambda>e. e = Markdown (str ''<reply>''))
     (fst (app (world_ok (Inr (WithoutContent (str ''<reply>''))))
        (type_and_analyze (str ''fever'')))) = [Markdown (str ''<reply>'')] \<and>
   Download_button (str ''Download Results'') (str ''<reply>'')
     (str ''medical_entities.txt'') (str ''text/plain'')
     \<in> set (fst (app (world_ok (Inr (WithoutContent (str ''<reply>''))))
          (type_and_analyze (str ''fever'')))) \<and>
   Download_button ([128229] @ str '' Download Results'') (str ''<reply>'')
     (str ''extracted_entities.md'') (str ''text/markdown'')
     \<in> set (shown (app2 (world_ok (Inr (WithoutContent (str ''<reply>''))))
          (type_and_analyze (str ''fever'')))) \<and>
   ending (app2 (world_ok (Inr (WithoutContent (str ''<reply>''))))
     (type_and_analyze (str ''fever''))) = Finished"
proof -
  let ?w = "world_ok (Inr (WithoutContent (str ''<reply>'')))"
  have h1: "truthy_opt (environ ?w GROQ_API_KEY)"
    by (rule world_ok_sel(2))
  have h2: "\<forall>llm. new_ChatGroq ?w llm = Inr ()"
    by (simp add: world_ok_sel)
  have h3: "\<forall>llm messages. invoke ?w llm messages = Inr (WithoutContent (str ''<reply>''))"
    by (simp add: world_ok_sel)
  have h4: "clicked (type_and_analyze (str ''fever'')) = ClickAnalyze"
    by (simp add: type_and_analyze_sel)
  have h5: "truthy (strip (input_text (type_and_analyze (str ''fever''))))"
    by (simp add: type_and_analyze_sel strip_fever)
  have h6: "str ''<reply>'' =
      (case WithoutContent (str ''<reply>'') of
         WithContent c \<Rightarrow> c | WithoutContent s \<Rightarrow> s)"
    by simp
  show ?thesis
    using h1 h4 h5 displayed_is_downloaded [OF h1 h2 h3 h4 h5 h6]
    by blast
qed




text \<open>
  C7 fails on the code. Pressing Clear with \<open>fever\<close> in the text box makes the script
  assign to \<open>st.session_state.input_area\<close> after the text box with that key has been
  created in the same run; the assignment raises, the run ends with that exception
  before the rerun is requested, and the text box keeps \<open>fever\<close>. Pressing Analyze next,
  without typing anything, sends that text to the model endpoint.
\<close>

theorem clear_keeps_text:
  "ending (app2 world_answers (type_and_clear (str ''fever''))) =
     Raised ([96] @ str ''st.session_state.'' @ str ''input_area'' @ [96] @
             str '' cannot be modified after the widget with key '' @ [96] @
             str ''input_area'' @ [96] @ str '' is instantiated.'') \<and>
   text_box (app2 world_answers (type_and_clear (str ''fever''))) = str ''fever'' \<and>
   Invoke (ChatGroq_app2 (Some (str ''gsk_test'')))
     [HumanMessage (PROMPT_TEMPLATE_head @ str ''fever'' @ PROMPT_TEMPLATE_tail)]
     \<in> set (shown (app2 world_answers
          (type_and_analyze (text_box (app2 world_answers (type_and_clear (str ''fever'')))))))"
proof -
  have kept: "text_box (app2 world_answers (type_and_clear (str ''fever''))) = str ''fever''"
    by (simp add: text_box_def app2_clear type_and_clear_sel)
  have sent: "Invoke (ChatGroq_app2 (Some (str ''gsk_test'')))
     [HumanMessage (PROMPT_TEMPLATE_head @ str ''fever'' @ PROMPT_TEMPLATE_tail)]
     \<in> set (shown (app2 world_answers (type_and_analyze (str ''fever''))))"
    using process_text_ready [OF world_ok_sel(2) world_ok_sel(3),
        of "Inr (WithContent table_ABC)" "Inr (WithContent table_ABC)" "str ''fever''"]
    by (simp add: world_answers_def app2_analyze type_and_analyze_sel strip_fever
        process_try_cases world_ok_sel)
  show ?thesis
    using sent by (simp add: kept app2_clear type_and_clear_sel)
qed

end
